theory Spec2Isabelle
  imports Main "HOL-Library.Char_ord" "HOL-Library.List_Lexorder"
    "HOL-Library.Product_Lexorder" "HOL-Library.Word"
begin

section \<open>Python strings\<close>

text \<open>
  A Python \<open>str\<close> is modelled as a \<open>string\<close> of ASCII characters. The three string
  predicates the scripts rely on (\<open>str.strip\<close>, \<open>str.split\<close> and the regular
  expression class \<open>\s\<close>) all use the same whitespace test, which on ASCII is the ten
  characters below; \<open>str.upper\<close> and \<open>str.lower\<close> change the 26 letters and nothing
  else.
\<close>

definition ascii_whitespace :: "char list" where
  "ascii_whitespace =
     [CHR 0x09, CHR 0x0A, CHR 0x0B, CHR 0x0C, CHR 0x0D,
      CHR 0x1C, CHR 0x1D, CHR 0x1E, CHR 0x1F, CHR '' '']"

definition is_space :: "char \<Rightarrow> bool" where
  "is_space c = (c \<in> set ascii_whitespace)"

definition ascii_lowercase :: string where
  "ascii_lowercase = ''abcdefghijklmnopqrstuvwxyz''"

definition ascii_uppercase :: string where
  "ascii_uppercase = ''ABCDEFGHIJKLMNOPQRSTUVWXYZ''"

definition upper_char :: "char \<Rightarrow> char" where
  "upper_char c =
     (case map_of (zip ascii_lowercase ascii_uppercase) c of Some u \<Rightarrow> u | None \<Rightarrow> c)"

definition lower_char :: "char \<Rightarrow> char" where
  "lower_char c =
     (case map_of (zip ascii_uppercase ascii_lowercase) c of Some l \<Rightarrow> l | None \<Rightarrow> c)"

text \<open>\<open>s.upper()\<close> and \<open>s.lower()\<close>.\<close>

definition upper :: "string \<Rightarrow> string" where
  "upper s = map upper_char s"

definition lower :: "string \<Rightarrow> string" where
  "lower s = map lower_char s"

text \<open>\<open>s.strip()\<close>: whitespace is removed at both ends.\<close>

definition strip :: "string \<Rightarrow> string" where
  "strip s = rev (dropWhile is_space (rev (dropWhile is_space s)))"

text \<open>
  \<open>re.sub(r"\s+", repl, s)\<close>: every maximal run of whitespace is replaced by \<open>repl\<close>.
\<close>

function re_sub_ws :: "string \<Rightarrow> string \<Rightarrow> string" where
  "re_sub_ws repl [] = []"
| "re_sub_ws repl (c # cs) =
     (if is_space c then repl @ re_sub_ws repl (dropWhile is_space cs)
      else c # re_sub_ws repl cs)"
  by pat_completeness auto
termination
  by (relation "measure (\<lambda>(r, s). length s)")
     (auto simp: le_imp_less_Suc length_dropWhile_le)

text \<open>
  \<open>s.split()\<close>: the maximal runs of non-whitespace characters, in order; the empty list
  when \<open>s\<close> is empty or all whitespace.
\<close>

function split_ws :: "string \<Rightarrow> string list" where
  "split_ws [] = []"
| "split_ws (c # cs) =
     (if is_space c then split_ws cs
      else (c # takeWhile (\<lambda>x. \<not> is_space x) cs)
             # split_ws (dropWhile (\<lambda>x. \<not> is_space x) cs))"
  by pat_completeness auto
termination
  by (relation "measure length") (auto simp: le_imp_less_Suc length_dropWhile_le)

text \<open>The slices \<open>s[:-k]\<close> and \<open>s[-k:]\<close> for \<open>k > 0\<close>; a start before the string is
  clipped to its beginning, as Python does.\<close>

definition slice_to_neg :: "nat \<Rightarrow> 'a list \<Rightarrow> 'a list" where
  "slice_to_neg k s = take (length s - k) s"

definition slice_from_neg :: "nat \<Rightarrow> 'a list \<Rightarrow> 'a list" where
  "slice_from_neg k s = drop (length s - k) s"

section \<open>Values\<close>

text \<open>
  Every table is loaded with \<open>dtype=str\<close>, so a cell of a data frame is a string or the
  missing marker \<open>np.nan\<close>. A helper function can be called with any Python object; the
  objects that are neither a string nor \<open>np.nan\<close> (the integer 123, \<open>None\<close>, ...) are
  one further constructor.
\<close>

datatype cell = Str string | NaN

datatype pyval = Val cell | NonStr

text \<open>\<open>Series.astype(str)\<close> on a column of cells: a missing cell becomes the text
  \<open>nan\<close>.\<close>

fun astype_str :: "cell \<Rightarrow> string" where
  "astype_str (Str s) = s"
| "astype_str NaN = ''nan''"

text \<open>\<open>Series.str.split().str[0]\<close>: the first token of a string cell; missing for a
  missing cell and for a string without a token.\<close>

fun str_split_first :: "cell \<Rightarrow> cell" where
  "str_split_first (Str s) = (case split_ws s of [] \<Rightarrow> NaN | t # _ \<Rightarrow> Str t)"
| "str_split_first NaN = NaN"

section \<open>Practiceinformation.py: helpers\<close>

text \<open>\<open>format_uk_postcode\<close>, lines 46 to 56.\<close>

fun format_uk_postcode :: "pyval \<Rightarrow> cell" where
  "format_uk_postcode (Val (Str pc)) =
     (let s = re_sub_ws [] (upper pc)
      in if 5 \<le> length s then Str (slice_to_neg 3 s @ '' '' @ slice_from_neg 3 s)
         else Str s)"
| "format_uk_postcode _ = NaN"

text \<open>\<open>first_nonnull\<close>, lines 59 to 64: the loop over \<open>vals\<close> returns at the first
  string whose \<open>strip()\<close> is non-empty, with that stripped string.\<close>

fun first_nonnull :: "pyval list \<Rightarrow> cell" where
  "first_nonnull [] = NaN"
| "first_nonnull (Val (Str v) # vals) =
     (if strip v \<noteq> [] then Str (strip v) else first_nonnull vals)"
| "first_nonnull (_ # vals) = first_nonnull vals"

section \<open>Header resolution\<close>

text \<open>
  Both resolvers build a Python dictionary from a normalised header to the header, with
  a comprehension over the columns in order: a later column with the same key replaces
  an earlier one.
\<close>

definition dict_of :: "('a \<Rightarrow> 'k) \<Rightarrow> 'a list \<Rightarrow> ('k \<rightharpoonup> 'a)" where
  "dict_of key cols = fold (\<lambda>c m. m(key c \<mapsto> c)) cols Map.empty"

text \<open>The loop \<open>for cand in candidates: if key(cand) in d: return d[key(cand)]\<close>,
  falling through to \<open>None\<close>.\<close>

fun lookup_first :: "(string \<Rightarrow> 'k) \<Rightarrow> ('k \<rightharpoonup> string) \<Rightarrow> string list \<Rightarrow> string option" where
  "lookup_first key d [] = None"
| "lookup_first key d (cand # cands) =
     (case d (key cand) of Some col \<Rightarrow> Some col | None \<Rightarrow> lookup_first key d cands)"

text \<open>\<open>pick_col\<close>, Practiceinformation.py lines 67 to 77. The key of a name is
  \<open>re.sub(r"\s+", " ", name.strip().lower())\<close>.\<close>

definition norm_key :: "string \<Rightarrow> string" where
  "norm_key c = re_sub_ws '' '' (lower (strip c))"

definition pick_col :: "string list \<Rightarrow> string list \<Rightarrow> string option" where
  "pick_col columns candidates = lookup_first norm_key (dict_of norm_key columns) candidates"

text \<open>\<open>find_column\<close>, HealthDepriviation_2019.py lines 72 to 85: a first loop over the
  candidates for an exact match, then the dictionary keyed by \<open>col.lower().strip()\<close>.\<close>

fun find_exact :: "string list \<Rightarrow> string list \<Rightarrow> string option" where
  "find_exact actual_cols [] = None"
| "find_exact actual_cols (candidate # candidates) =
     (if candidate \<in> set actual_cols then Some candidate
      else find_exact actual_cols candidates)"

definition lower_strip :: "string \<Rightarrow> string" where
  "lower_strip c = strip (lower c)"

definition find_column :: "string list \<Rightarrow> string list \<Rightarrow> string option" where
  "find_column actual_cols candidates =
     (case find_exact actual_cols candidates of
        Some c \<Rightarrow> Some c
      | None \<Rightarrow> lookup_first lower_strip (dict_of lower_strip actual_cols) candidates)"

section \<open>Practiceinformation.py: the two-pass merge of \<open>run\<close>\<close>

text \<open>
  Both files are read with \<open>dtype=str, keep_default_na=False,
  na_values=["", "NA", "NaN"]\<close> (lines 89 and 135): a cell whose text is one of the
  three is missing, every other cell is its text.
\<close>

definition na_values :: "string list" where
  "na_values = ['''', ''NA'', ''NaN'']"

definition read_cell :: "string \<Rightarrow> cell" where
  "read_cell t = (if t \<in> set na_values then NaN else Str t)"

text \<open>
  The canonical geography fields of \<open>name_map\<close> (lines 153 to 165). Which of them
  \<open>pick_col\<close> resolved in the mapping file is the parameter \<open>picked\<close> below.
\<close>

datatype geo_field =
  RegionCode | RegionName | ICBID | ICBName | MSOAID | MSOAName
  | LSOAID | LSOAName | LSOA11ID | LSOA11Name | CountryName

text \<open>
  A row of the GP file as read: the text of the resolved postcode column, and the other
  columns (\<open>PracticeCode\<close>, \<open>PracticeName\<close>, \<open>Address\<close>, \<open>Status\<close>), which the
  merge carries along and never inspects. A row of the mapping file as read: the text of
  the postcode column, of the outcode column (read only when the file has one) and of the
  column resolved for each geography field.
\<close>

record 'a gp_raw_row =
  gp_postcode :: string
  gp_other :: 'a

record map_raw_row =
  map_pcd2 :: string
  map_outcode :: string
  map_geo :: "geo_field \<Rightarrow> string"

record 'a gp_core_row =
  PostCode :: cell
  other_cols :: 'a

record map_slim_row =
  PCD2_fmt :: cell
  Outcode :: cell
  geo :: "geo_field \<Rightarrow> cell"

text \<open>Lines 116 and 125: \<open>astype(str)\<close>, then \<open>format_uk_postcode\<close> on each cell.\<close>

definition gp_core_of :: "'a gp_raw_row \<Rightarrow> 'a gp_core_row" where
  "gp_core_of r =
     \<lparr>PostCode = format_uk_postcode (Val (Str (astype_str (read_cell (gp_postcode r))))),
      other_cols = gp_other r\<rparr>"

text \<open>Line 150, \<open>.str.upper().str.replace(r"\s+", "", regex=True)\<close> on the outcode column
  of the mapping file; a missing cell stays missing.\<close>

fun outcode_norm :: "cell \<Rightarrow> cell" where
  "outcode_norm (Str s) = Str (re_sub_ws [] (upper s))"
| "outcode_norm NaN = NaN"

text \<open>Lines 143 to 171. \<open>has_outcode\<close> says whether \<open>pick_col\<close> found an outcode column
  in the mapping file; without one the outcode is the first token of the formatted
  postcode.\<close>

definition map_slim_of :: "bool \<Rightarrow> map_raw_row \<Rightarrow> map_slim_row" where
  "map_slim_of has_outcode r =
     (let pcd = format_uk_postcode (Val (read_cell (map_pcd2 r)))
      in \<lparr>PCD2_fmt = pcd,
          Outcode = (if has_outcode then outcode_norm (read_cell (map_outcode r))
                     else str_split_first pcd),
          geo = (\<lambda>f. read_cell (map_geo r f))\<rparr>)"

text \<open>
  \<open>left.merge(right, how="left", left_on=..., right_on=...)\<close>: the left rows in order, each
  once for every right row with an equal key, in the order of the right table, and once
  with no right row (every right column missing) when no key is equal. Missing keys are
  equal to each other in a pandas merge, as \<open>NaN = NaN\<close> is here.
\<close>

definition merge_left ::
  "('l \<Rightarrow> cell) \<Rightarrow> ('r \<Rightarrow> cell) \<Rightarrow> 'l list \<Rightarrow> 'r list \<Rightarrow> ('l \<times> 'r option) list" where
  "merge_left left_on right_on left right =
     concat (map (\<lambda>l. case filter (\<lambda>r. right_on r = left_on l) right of
                         [] \<Rightarrow> [(l, None)]
                       | ms \<Rightarrow> map (\<lambda>r. (l, Some r)) ms) left)"

text \<open>\<open>drop_duplicates(key)\<close>: a row is dropped when an earlier row has the same key.\<close>

fun drop_duplicates_from :: "cell list \<Rightarrow> ('r \<Rightarrow> cell) \<Rightarrow> 'r list \<Rightarrow> 'r list" where
  "drop_duplicates_from seen key [] = []"
| "drop_duplicates_from seen key (r # rs) =
     (if key r \<in> set seen then drop_duplicates_from seen key rs
      else r # drop_duplicates_from (key r # seen) key rs)"

definition drop_duplicates :: "('r \<Rightarrow> cell) \<Rightarrow> 'r list \<Rightarrow> 'r list" where
  "drop_duplicates key rs = drop_duplicates_from [] key rs"

text \<open>Lines 175 to 181: the merge by full postcode.\<close>

definition m1 :: "'a gp_core_row list \<Rightarrow> map_slim_row list
    \<Rightarrow> ('a gp_core_row \<times> map_slim_row option) list" where
  "m1 gp_core map_slim = merge_left PostCode PCD2_fmt gp_core map_slim"

text \<open>Lines 185 to 192: the outcode of the GP postcode, and the merge against the mapping
  with one row for each outcode.\<close>

definition Outcode_gp :: "'a gp_core_row \<times> map_slim_row option \<Rightarrow> cell" where
  "Outcode_gp row = str_split_first (PostCode (fst row))"

definition m2 :: "'a gp_core_row list \<Rightarrow> map_slim_row list
    \<Rightarrow> (('a gp_core_row \<times> map_slim_row option) \<times> map_slim_row option) list" where
  "m2 gp_core map_slim =
     merge_left Outcode_gp Outcode (m1 gp_core map_slim) (drop_duplicates Outcode map_slim)"

text \<open>
  Lines 195 to 203. \<open>r.get(col_pc)\<close> is the column that came with the postcode merge,
  \<open>r.get(col_oc)\<close> the column of the same name that came with the outcode merge, which
  the second merge suffixed \<open>_oc\<close>; every resolved geography column is on both sides of
  the second merge, so the suffixed column is there and line 201 is the branch taken. A
  field that was not resolved is the missing marker in every row (line 197).
\<close>

definition get_col :: "map_slim_row option \<Rightarrow> geo_field \<Rightarrow> cell" where
  "get_col r f = (case r of None \<Rightarrow> NaN | Some m \<Rightarrow> geo m f)"

definition coalesce ::
  "(geo_field \<Rightarrow> bool) \<Rightarrow> map_slim_row option \<Rightarrow> map_slim_row option \<Rightarrow> geo_field \<Rightarrow> cell" where
  "coalesce picked r_pc r_oc f =
     (if picked f then first_nonnull [Val (get_col r_pc f), Val (get_col r_oc f)] else NaN)"

record 'a merged_row =
  gp_cols :: "'a gp_core_row"
  pc_match :: "map_slim_row option"
  oc_match :: "map_slim_row option"
  out_geo :: "geo_field \<Rightarrow> cell"

definition coalesce_row :: "(geo_field \<Rightarrow> bool)
    \<Rightarrow> ('a gp_core_row \<times> map_slim_row option) \<times> map_slim_row option \<Rightarrow> 'a merged_row" where
  "coalesce_row picked row =
     \<lparr>gp_cols = fst (fst row), pc_match = snd (fst row), oc_match = snd row,
      out_geo = coalesce picked (snd (fst row)) (snd row)\<rparr>"

text \<open>Lines 206 to 213: the filter to England, on the coalesced country.\<close>

definition is_england :: "'a merged_row \<Rightarrow> bool" where
  "is_england row = (upper (strip (astype_str (out_geo row CountryName))) = ''ENGLAND'')"

definition run_merged :: "(geo_field \<Rightarrow> bool) \<Rightarrow> bool \<Rightarrow> 'a gp_raw_row list
    \<Rightarrow> map_raw_row list \<Rightarrow> 'a merged_row list" where
  "run_merged picked has_outcode gp_raw mapping =
     map (coalesce_row picked)
       (m2 (map gp_core_of gp_raw) (map (map_slim_of has_outcode) mapping))"

definition run_output :: "(geo_field \<Rightarrow> bool) \<Rightarrow> bool \<Rightarrow> 'a gp_raw_row list
    \<Rightarrow> map_raw_row list \<Rightarrow> 'a merged_row list" where
  "run_output picked has_outcode gp_raw mapping =
     (if picked CountryName
      then filter is_england (run_merged picked has_outcode gp_raw mapping)
      else run_merged picked has_outcode gp_raw mapping)"

section \<open>gppatientregister.py: the aggregation\<close>

text \<open>
  The scripts call three functions of pandas whose code is not part of the repository.
  They are parameters of the model, one result for each value of a column:
  \<^item> \<open>to_numeric\<close>: what \<open>pd.to_numeric\<close> makes of one text, \<open>None\<close> where it cannot
    parse it. A parsed number is a finite number, given by the 64-bit integer that
    \<open>astype("int64")\<close> casts it to, or the float \<open>nan\<close>, or a number that the cast to
    an integer rejects (an infinity).
  \<^item> \<open>to_datetime\<close>: what \<open>pd.to_datetime(..., errors="coerce")\<close> makes of one text
    under a format (\<open>None\<close> for \<open>format="mixed", dayfirst=True\<close>), \<open>None\<close> for \<open>NaT\<close>.
  \<^item> \<open>strftime_Ym\<close>: \<open>dt.strftime("%Y%m")\<close>.
\<close>

datatype numeric = Number "64 word" | NotANumber | Unrepresentable

record 'd pandas =
  to_numeric :: "string \<Rightarrow> numeric option"
  to_datetime :: "string option \<Rightarrow> string \<Rightarrow> 'd option"
  strftime_Ym :: "'d \<Rightarrow> string"

datatype error = ValueError | FileNotFoundError | OverflowError | OtherError








text \<open>\<open>read_one_csv\<close>, lines 106 to 119. The argument is what
  \<open>pd.read_csv(path, usecols=USECOLS, dtype=str)\<close> returned, or the exception it raised.\<close>

record reg_row =
  EXTRACT_DATE :: cell
  CODE :: cell
  NUMBER_OF_PATIENTS :: cell








section \<open>gpcountwithage.py\<close>


fun coerce_int :: "'d pandas \<Rightarrow> cell \<Rightarrow> error + 64 word" where
  "coerce_int P NaN = Inr 0"
| "coerce_int P (Str s) =
     (case to_numeric P s of
        None \<Rightarrow> Inr 0
      | Some NotANumber \<Rightarrow> Inr 0
      | Some (Number w) \<Rightarrow> Inr w
      | Some Unrepresentable \<Rightarrow> Inl OverflowError)"











section \<open>Exit behaviour of the scripts\<close>


subsection \<open>HealthDepriviation_2019.py\<close>




subsection \<open>Practiceinformation.py\<close>







section \<open>Example tables\<close>

text \<open>
  The end-to-end scenario of the specification: three practices; the mapping has the
  exact postcode of the first two, and for the third only rows of its outcode. Two
  mapping rows share the outcode \<open>SW1A\<close>. The mapping file has no outcode column, and
  the region name and the country are the resolved geography fields.
\<close>

fun geo_text :: "string \<Rightarrow> string \<Rightarrow> geo_field \<Rightarrow> string" where
  "geo_text region country RegionName = region"
| "geo_text region country CountryName = country"
| "geo_text region country _ = []"

fun picked_example :: "geo_field \<Rightarrow> bool" where
  "picked_example RegionName = True"
| "picked_example CountryName = True"
| "picked_example _ = False"

definition gp_example :: "string gp_raw_row list" where
  "gp_example =
     [\<lparr>gp_postcode = ''sw1a 1aa'', gp_other = ''A81001''\<rparr>,
      \<lparr>gp_postcode = ''LS1 4AP'', gp_other = ''B86001''\<rparr>,
      \<lparr>gp_postcode = ''SW1A 9ZZ'', gp_other = ''E87001''\<rparr>]"

definition mapping_example :: "map_raw_row list" where
  "mapping_example =
     [\<lparr>map_pcd2 = ''SW1A 2AA'', map_outcode = [], map_geo = geo_text ''Westminster'' ''England''\<rparr>,
      \<lparr>map_pcd2 = ''SW1A1AA'', map_outcode = [], map_geo = geo_text '' London'' ''England''\<rparr>,
      \<lparr>map_pcd2 = ''LS1 4AP'', map_outcode = [], map_geo = geo_text ''Leeds'' ''England''\<rparr>]"












section \<open>Vocabulary of the statements\<close>

text \<open>The stripped text of a cell that holds a string with a non-empty strip, and
  \<open>other\<close> for every other cell.\<close>

abbreviation trimmed_or :: "cell \<Rightarrow> cell \<Rightarrow> cell" where
  "trimmed_or v other \<equiv>
     (case v of Str s \<Rightarrow> if strip s \<noteq> [] then Str (strip s) else other | NaN \<Rightarrow> other)"

section \<open>Facts about the string functions\<close>

lemmas chars =
  is_space_def ascii_whitespace_def upper_def upper_char_def lower_def lower_char_def
  ascii_lowercase_def ascii_uppercase_def

lemma map_of_zip_notin: "c \<notin> set xs \<Longrightarrow> map_of (zip xs ys) c = None"
  by (auto simp: map_of_eq_None_iff dest: set_zip_leftD)

lemma map_of_zip_in: "map_of (zip xs ys) c = Some u \<Longrightarrow> c \<in> set xs \<and> u \<in> set ys"
  by (auto dest!: map_of_SomeD dest: set_zip_leftD set_zip_rightD)

lemma upper_not_lower: "c \<in> set ascii_uppercase \<Longrightarrow> c \<notin> set ascii_lowercase"
  by (auto simp: ascii_lowercase_def ascii_uppercase_def)

lemma uppercase_not_space: "c \<in> set ascii_uppercase \<Longrightarrow> \<not> is_space c"
  by (auto simp: ascii_uppercase_def is_space_def ascii_whitespace_def)

lemma lowercase_not_space: "c \<in> set ascii_lowercase \<Longrightarrow> \<not> is_space c"
  by (auto simp: ascii_lowercase_def is_space_def ascii_whitespace_def)

lemma upper_char_cases:
  "upper_char c = c \<or> (c \<in> set ascii_lowercase \<and> upper_char c \<in> set ascii_uppercase)"
  unfolding upper_char_def by (auto split: option.splits dest: map_of_zip_in)

lemma upper_char_fix: "c \<in> set ascii_uppercase \<Longrightarrow> upper_char c = c"
  unfolding upper_char_def by (simp add: map_of_zip_notin upper_not_lower)

lemma upper_char_idem: "upper_char (upper_char c) = upper_char c"
  using upper_char_cases [of c] upper_char_fix by auto

lemma is_space_upper_char: "is_space (upper_char c) = is_space c"
  using upper_char_cases [of c] uppercase_not_space lowercase_not_space by auto

lemma upper_idem: "upper (upper s) = upper s"
  by (simp add: upper_def upper_char_idem)

lemma space_is_space: "is_space CHR '' ''"
  by (simp add: is_space_def ascii_whitespace_def)

lemma upper_char_blank: "upper_char CHR '' '' = CHR '' ''"
  using upper_char_cases [of "CHR '' ''"] lowercase_not_space space_is_space by auto

text \<open>With the empty replacement, \<open>re.sub(r"\s+", "", s)\<close> deletes exactly the whitespace
  characters.\<close>

lemma re_sub_ws_Nil: "re_sub_ws [] s = filter (\<lambda>c. \<not> is_space c) s"
proof (induction "[] :: string" s rule: re_sub_ws.induct)
  case 1
  show ?case by simp
next
  case (2 c cs)
  have "filter (\<lambda>c. \<not> is_space c) (dropWhile is_space cs) = filter (\<lambda>c. \<not> is_space c) cs"
    by (induction cs) auto
  with 2 show ?case by simp
qed

lemma upper_filter_space:
  "upper (filter (\<lambda>c. \<not> is_space c) s) = filter (\<lambda>c. \<not> is_space c) (upper s)"
  by (induction s) (auto simp: upper_def is_space_upper_char)

section \<open>The postcode normalizer\<close>

lemma format_uk_postcode_Str:
  "format_uk_postcode (Val (Str pc)) =
     (let s = filter (\<lambda>c. \<not> is_space c) (upper pc)
      in if 5 \<le> length s then Str (take (length s - 3) s @ '' '' @ drop (length s - 3) s)
         else Str s)"
  by (simp add: re_sub_ws_Nil slice_to_neg_def slice_from_neg_def Let_def)

text \<open>An upper-case string without whitespace, cut anywhere and joined with one space,
  compacts back to itself.\<close>

lemma spaced_compact:
  assumes "upper s = s" "filter (\<lambda>c. \<not> is_space c) s = s"
  shows "filter (\<lambda>c. \<not> is_space c) (upper (take n s @ '' '' @ drop n s)) = s"
proof -
  have "upper (take n s @ '' '' @ drop n s) = take n (upper s) @ '' '' @ drop n (upper s)"
    by (simp add: upper_def take_map drop_map upper_char_blank)
  also have "\<dots> = take n s @ '' '' @ drop n s" using assms by simp
  finally have "filter (\<lambda>c. \<not> is_space c) (upper (take n s @ '' '' @ drop n s))
     = filter (\<lambda>c. \<not> is_space c) (take n s) @ filter (\<lambda>c. \<not> is_space c) (drop n s)"
    by (simp add: space_is_space)
  also have "\<dots> = filter (\<lambda>c. \<not> is_space c) (take n s @ drop n s)"
    by (simp only: filter_append)
  also have "\<dots> = s" using assms by simp
  finally show ?thesis .
qed

text \<open>
  Claim C3. The postcode normalizer is a total function. On an argument that is not a
  string (the missing marker or any other object) it returns the missing marker. On a
  string it upper-cases and deletes all whitespace; when at least 5 characters are left
  it puts one space before the last three of them, so that the part after the space has
  exactly 3 characters, and otherwise it returns the compacted string as it is. Every
  operation of the body is defined on every string, so no argument makes it raise: the
  function has a value of type \<open>cell\<close> everywhere.
\<close>

theorem format_uk_postcode_total:
  "format_uk_postcode NonStr = NaN \<and> format_uk_postcode (Val NaN) = NaN \<and>
   (let s = filter (\<lambda>c. \<not> is_space c) (upper pc)
    in format_uk_postcode (Val (Str pc)) =
         (if 5 \<le> length s then Str (take (length s - 3) s @ '' '' @ drop (length s - 3) s)
          else Str s)
       \<and> (5 \<le> length s \<longrightarrow>
            length (drop (length s - 3) s) = 3 \<and> 2 \<le> length (take (length s - 3) s)))"
proof -
  have "format_uk_postcode NonStr = NaN" "format_uk_postcode (Val NaN) = NaN"
    by simp_all
  moreover have "5 \<le> length s \<Longrightarrow>
      length (drop (length s - 3) s) = 3 \<and> 2 \<le> length (take (length s - 3) s)"
    for s :: string
    by auto
  ultimately show ?thesis
    unfolding format_uk_postcode_Str Let_def by blast
qed

text \<open>The examples of the specification: \<open>" sw1a 1aa "\<close>, the short \<open>"AB1"\<close>, and a
  value that is not a string.\<close>

theorem format_uk_postcode_total_witness:
  "format_uk_postcode (Val (Str '' sw1a 1aa '')) = Str ''SW1A 1AA'' \<and>
   format_uk_postcode (Val (Str ''AB1'')) = Str ''AB1'' \<and>
   format_uk_postcode NonStr = NaN"
  using format_uk_postcode_total [of "'' sw1a 1aa ''"] format_uk_postcode_total [of "''AB1''"]
  by (simp add: chars Let_def)

text \<open>
  Claim C9. The postcode normalizer is idempotent: normalizing the result of a
  normalization gives that result again, for every string and for every other argument.
\<close>

theorem format_uk_postcode_idempotent:
  "format_uk_postcode (Val (format_uk_postcode v)) = format_uk_postcode v"
proof (cases v)
  case NonStr
  then show ?thesis by simp
next
  case (Val c)
  show ?thesis
  proof (cases c)
    case NaN
    with Val show ?thesis by simp
  next
    case (Str pc)
    define s where "s = filter (\<lambda>c. \<not> is_space c) (upper pc)"
    have sfix: "upper s = s" "filter (\<lambda>c. \<not> is_space c) s = s"
      by (simp_all add: s_def upper_filter_space upper_idem)
    show ?thesis
    proof (cases "5 \<le> length s")
      case True
      have first: "format_uk_postcode (Val (Str pc)) =
          Str (take (length s - 3) s @ '' '' @ drop (length s - 3) s)"
        unfolding format_uk_postcode_Str Let_def s_def [symmetric] using True by simp
      have "format_uk_postcode (Val (Str (take (length s - 3) s @ '' '' @ drop (length s - 3) s)))
            = Str (take (length s - 3) s @ '' '' @ drop (length s - 3) s)"
        unfolding format_uk_postcode_Str spaced_compact [OF sfix] Let_def using True by simp
      with first Val Str show ?thesis by simp
    next
      case False
      have first: "format_uk_postcode (Val (Str pc)) = Str s"
        unfolding format_uk_postcode_Str Let_def s_def [symmetric] using False by simp
      have "format_uk_postcode (Val (Str s)) = Str s"
        unfolding format_uk_postcode_Str Let_def using False sfix by simp
      with first Val Str show ?thesis by simp
    qed
  qed
qed

theorem format_uk_postcode_idempotent_witness:
  "format_uk_postcode (Val (Str ''SW1A 1AA'')) = Str ''SW1A 1AA'' \<and>
   format_uk_postcode (Val (Str '' sw1a 1aa '')) = Str ''SW1A 1AA''"
  using format_uk_postcode_idempotent [of "Val (Str '' sw1a 1aa '')"]
  by (simp add: chars Let_def slice_to_neg_def slice_from_neg_def)

section \<open>Stripping and coalescing\<close>

lemma rev_dropWhile_rev_take: "rev (dropWhile P (rev t)) = take (length t - length (takeWhile P (rev t))) t"
  by (simp add: dropWhile_eq_drop rev_drop)

lemma strip_trimmed:
  assumes "strip s \<noteq> []"
  shows "\<not> is_space (hd (strip s)) \<and> \<not> is_space (last (strip s))"
proof -
  define t where "t = dropWhile is_space s"
  define d where "d = dropWhile is_space (rev t)"
  have sd: "strip s = rev d" by (simp add: strip_def t_def d_def)
  with assms have dne: "d \<noteq> []" by simp
  then have "\<not> is_space (hd d)" unfolding d_def by (rule hd_dropWhile)
  then have l: "\<not> is_space (last (strip s))" using dne by (simp add: sd last_rev)
  from dne have tne: "t \<noteq> []" unfolding d_def by auto
  then have ht: "\<not> is_space (hd t)" unfolding t_def by (rule hd_dropWhile)
  have "strip s = take (length t - length (takeWhile is_space (rev t))) t"
    unfolding sd d_def by (rule rev_dropWhile_rev_take)
  with assms have "hd (strip s) = hd t"
    by (metis hd_take take_eq_Nil gr0I)
  with ht l show ?thesis by simp
qed

lemma first_nonnull_find:
  "first_nonnull vals =
     (case find (\<lambda>v. case v of Val (Str s) \<Rightarrow> strip s \<noteq> [] | _ \<Rightarrow> False) vals of
        Some (Val (Str s)) \<Rightarrow> Str (strip s)
      | _ \<Rightarrow> NaN)"
  by (induction vals rule: first_nonnull.induct) auto

lemma first_nonnull_trimmed:
  "first_nonnull vals = NaN \<or>
   (\<exists>t. first_nonnull vals = Str t \<and> t \<noteq> [] \<and> \<not> is_space (hd t) \<and> \<not> is_space (last t))"
  by (induction vals rule: first_nonnull.induct) (auto simp: strip_trimmed)

lemma coalesce_trimmed:
  "coalesce picked r_pc r_oc f = NaN \<or>
   (\<exists>t. coalesce picked r_pc r_oc f = Str t \<and> t \<noteq> [] \<and> \<not> is_space (hd t) \<and> \<not> is_space (last t))"
  unfolding coalesce_def using first_nonnull_trimmed by auto

lemma out_geo_run_merged:
  "row \<in> set (run_merged picked has_outcode gp_raw mapping) \<Longrightarrow>
   out_geo row = coalesce picked (pc_match row) (oc_match row)"
  by (auto simp: run_merged_def coalesce_row_def)

lemma set_run_output:
  "set (run_output picked has_outcode gp_raw mapping) \<subseteq> set (run_merged picked has_outcode gp_raw mapping)"
  by (auto simp: run_output_def)

lemma filter_drop_duplicates_from:
  "filter (\<lambda>r. key r = k) (drop_duplicates_from seen key rs) =
     (if k \<in> set seen then []
      else case find (\<lambda>r. key r = k) rs of None \<Rightarrow> [] | Some r \<Rightarrow> [r])"
proof (induction seen key rs rule: drop_duplicates_from.induct)
  case (1 seen key)
  then show ?case by simp
next
  case (2 seen key r rs)
  then show ?case by (auto split: option.splits)
qed

lemma filter_drop_duplicates:
  "filter (\<lambda>r. key r = k) (drop_duplicates key rs) =
     (case find (\<lambda>r. key r = k) rs of None \<Rightarrow> [] | Some r \<Rightarrow> [r])"
  by (simp add: drop_duplicates_def filter_drop_duplicates_from)

lemma keys_drop_duplicates_from:
  "set (map key (drop_duplicates_from seen key rs)) = set (map key rs) - set seen \<and>
   distinct (map key (drop_duplicates_from seen key rs))"
  by (induction seen key rs rule: drop_duplicates_from.induct) auto

lemma keys_drop_duplicates:
  "set (map key (drop_duplicates key rs)) = set (map key rs)"
  "distinct (map key (drop_duplicates key rs))"
  using keys_drop_duplicates_from [of key "[]" rs] by (simp_all add: drop_duplicates_def)

lemma sublist_drop_duplicates_from:
  "set (drop_duplicates_from seen key rs) \<subseteq> set rs"
  by (induction seen key rs rule: drop_duplicates_from.induct) auto

lemma merge_left_Cons:
  "merge_left lk rk (l # L) R =
     (case filter (\<lambda>r. rk r = lk l) R of [] \<Rightarrow> [(l, None)] | ms \<Rightarrow> map (\<lambda>r. (l, Some r)) ms)
     @ merge_left lk rk L R"
  by (simp add: merge_left_def)

lemma merge_left_Nil: "merge_left lk rk [] R = []"
  by (simp add: merge_left_def)

lemma merge_left_single:
  assumes "\<And>k. length (filter (\<lambda>r. rk r = k) R) \<le> 1"
  shows "merge_left lk rk L R = map (\<lambda>l. (l, find (\<lambda>r. rk r = lk l) R)) L"
proof (induction L)
  case Nil
  show ?case by (simp add: merge_left_Nil)
next
  case (Cons l L)
  have "(case filter (\<lambda>r. rk r = lk l) R of [] \<Rightarrow> [(l, None)] | ms \<Rightarrow> map (\<lambda>r. (l, Some r)) ms)
        = [(l, find (\<lambda>r. rk r = lk l) R)]"
  proof (cases "filter (\<lambda>r. rk r = lk l) R")
    case Nil
    then have "find (\<lambda>r. rk r = lk l) R = None"
      by (simp add: find_None_iff filter_empty_conv)
    with Nil show ?thesis by simp
  next
    case (Cons m ms)
    with assms [of "lk l"] have ms: "ms = []" by simp
    have "find (\<lambda>r. rk r = lk l) R = Some m"
      using Cons by (induction R) (auto split: if_splits)
    with Cons ms show ?thesis by simp
  qed
  with Cons show ?case by (simp add: merge_left_Cons)
qed

lemma distinct_filter_le1:
  "distinct (map rk R) \<Longrightarrow> length (filter (\<lambda>r. rk r = k) R) \<le> 1"
proof (induction R)
  case Nil
  then show ?case by simp
next
  case (Cons r R)
  then show ?case by (auto simp: filter_empty_conv) (metis imageI)
qed

lemma find_via_filter: "find P xs = (case filter P xs of [] \<Rightarrow> None | x # _ \<Rightarrow> Some x)"
  by (induction xs) auto

lemma find_drop_duplicates:
  "find (\<lambda>r. key r = k) (drop_duplicates key rs) = find (\<lambda>r. key r = k) rs"
  by (simp add: find_via_filter [of _ "drop_duplicates key rs"] filter_drop_duplicates
      split: option.splits)


lemma m2_eq:
  "m2 gp_core map_slim =
     map (\<lambda>row. (row, find (\<lambda>m. Outcode m = Outcode_gp row) map_slim)) (m1 gp_core map_slim)"
proof -
  have one: "length (filter (\<lambda>r. Outcode r = k) (drop_duplicates Outcode map_slim)) \<le> 1" for k
    by (rule distinct_filter_le1) (rule keys_drop_duplicates)
  show ?thesis
    unfolding m2_def by (simp add: merge_left_single [OF one] find_drop_duplicates)
qed


lemma set_merge_row:
  "set (case ms of [] \<Rightarrow> [(l, None)] | m # rest \<Rightarrow> map (\<lambda>r. (l, Some r)) (m # rest)) =
     (if ms = [] then {(l, None)} else (\<lambda>r. (l, Some r)) ` set ms)"
  by (cases ms) auto

lemma merge_left_rows:
  "(l, ro) \<in> set (merge_left lk rk L R) \<longleftrightarrow>
     l \<in> set L \<and>
     (case ro of None \<Rightarrow> lk l \<notin> set (map rk R)
      | Some r \<Rightarrow> r \<in> set R \<and> rk r = lk l)"
  unfolding merge_left_def
  by (cases ro) (auto simp: set_merge_row filter_empty_conv image_iff split: if_splits)

lemma m1_rows:
  "row \<in> set (m1 gp_core map_slim) \<Longrightarrow>
   fst row \<in> set gp_core \<and>
   (case snd row of
      None \<Rightarrow> PostCode (fst row) \<notin> set (map PCD2_fmt map_slim)
    | Some m \<Rightarrow> m \<in> set map_slim \<and> PCD2_fmt m = PostCode (fst row))"
  unfolding m1_def using merge_left_rows [of "fst row" "snd row" PostCode PCD2_fmt gp_core map_slim]
  by simp

section \<open>The merged table\<close>

lemmas eval_defs = run_merged_def run_output_def m1_def m2_def merge_left_def drop_duplicates_def
  coalesce_row_def coalesce_def get_col_def Outcode_gp_def map_slim_of_def gp_core_of_def
  read_cell_def na_values_def strip_def slice_to_neg_def slice_from_neg_def is_england_def
  gp_example_def mapping_example_def Let_def

lemma run_merged_rows:
  assumes "row \<in> set (run_merged picked has_outcode gp_raw mapping)"
  shows "gp_cols row \<in> set (map gp_core_of gp_raw)"
    and "case pc_match row of
           None \<Rightarrow> PostCode (gp_cols row) \<notin> set (map PCD2_fmt (map (map_slim_of has_outcode) mapping))
         | Some m \<Rightarrow> m \<in> set (map (map_slim_of has_outcode) mapping)
                     \<and> PCD2_fmt m = PostCode (gp_cols row)"
    and "oc_match row =
           find (\<lambda>m. Outcode m = str_split_first (PostCode (gp_cols row)))
                (map (map_slim_of has_outcode) mapping)"
    and "out_geo row = coalesce picked (pc_match row) (oc_match row)"
proof -
  let ?gp = "map gp_core_of gp_raw" and ?ms = "map (map_slim_of has_outcode) mapping"
  from assms obtain r where r: "r \<in> set (m1 ?gp ?ms)"
    and row: "row = coalesce_row picked (r, find (\<lambda>m. Outcode m = Outcode_gp r) ?ms)"
    unfolding run_merged_def m2_eq by auto
  from row have sel: "gp_cols row = fst r" "pc_match row = snd r"
    "oc_match row = find (\<lambda>m. Outcode m = Outcode_gp r) ?ms"
    "out_geo row = coalesce picked (snd r) (find (\<lambda>m. Outcode m = Outcode_gp r) ?ms)"
    by (simp_all add: coalesce_row_def)
  from m1_rows [OF r] sel show "gp_cols row \<in> set (map gp_core_of gp_raw)"
    and "case pc_match row of
           None \<Rightarrow> PostCode (gp_cols row) \<notin> set (map PCD2_fmt ?ms)
         | Some m \<Rightarrow> m \<in> set ?ms \<and> PCD2_fmt m = PostCode (gp_cols row)"
    by (auto split: option.splits)
  from sel show "oc_match row =
      find (\<lambda>m. Outcode m = str_split_first (PostCode (gp_cols row))) ?ms"
    by (simp add: Outcode_gp_def)
  from sel show "out_geo row = coalesce picked (pc_match row) (oc_match row)"
    by simp
qed

lemma coalesce_eq:
  "coalesce picked r_pc r_oc f =
     (if picked f then trimmed_or (get_col r_pc f) (trimmed_or (get_col r_oc f) NaN) else NaN)"
  by (simp add: coalesce_def split: cell.splits)



text \<open>
  Claim C8. The copy of the mapping that the merge by outcode uses has every outcode of
  the mapping exactly once, and the row it keeps for an outcode is the first row of the
  mapping with that outcode. The row that the merge by outcode attaches to a row is
  therefore the first row of the mapping with the outcode of its postcode (none when
  there is no such row); a later row with the same outcode is never attached.
\<close>

theorem outcode_first_occurrence:
  "distinct (map Outcode (drop_duplicates Outcode map_slim)) \<and>
   set (map Outcode (drop_duplicates Outcode map_slim)) = set (map Outcode map_slim) \<and>
   (\<forall>k. filter (\<lambda>m. Outcode m = k) (drop_duplicates Outcode map_slim) =
          (case find (\<lambda>m. Outcode m = k) map_slim of None \<Rightarrow> [] | Some m \<Rightarrow> [m])) \<and>
   (\<forall>row \<in> set (m2 gp_core map_slim).
      snd row = find (\<lambda>m. Outcode m = Outcode_gp (fst row)) map_slim)"
proof -
  have "\<forall>row \<in> set (m2 gp_core map_slim).
      snd row = find (\<lambda>m. Outcode m = Outcode_gp (fst row)) map_slim"
    unfolding m2_eq by auto
  with keys_drop_duplicates [of Outcode map_slim] filter_drop_duplicates [of Outcode _ map_slim]
  show ?thesis by blast
qed

text \<open>
  In the example the outcode \<open>SW1A\<close> is on the first two rows of the mapping; the
  practice at \<open>SW1A 9ZZ\<close> gets the first of them.
\<close>

theorem outcode_first_occurrence_witness:
  "map (\<lambda>m. (PCD2_fmt m, Outcode m)) (map (map_slim_of False) mapping_example) =
     [(Str ''SW1A 2AA'', Str ''SW1A''), (Str ''SW1A 1AA'', Str ''SW1A''),
      (Str ''LS1 4AP'', Str ''LS1'')] \<and>
   map PCD2_fmt (drop_duplicates Outcode (map (map_slim_of False) mapping_example)) =
     [Str ''SW1A 2AA'', Str ''LS1 4AP''] \<and>
   last (m2 (map gp_core_of gp_example) (map (map_slim_of False) mapping_example))
     \<in> set (m2 (map gp_core_of gp_example) (map (map_slim_of False) mapping_example)) \<and>
   map_option PCD2_fmt
     (snd (last (m2 (map gp_core_of gp_example) (map (map_slim_of False) mapping_example))))
     = Some (Str ''SW1A 2AA'')"
proof -
  let ?ms = "map (map_slim_of False) mapping_example"
  let ?m2 = "m2 (map gp_core_of gp_example) ?ms"
  have tab: "map (\<lambda>m. (PCD2_fmt m, Outcode m)) ?ms =
     [(Str ''SW1A 2AA'', Str ''SW1A''), (Str ''SW1A 1AA'', Str ''SW1A''),
      (Str ''LS1 4AP'', Str ''LS1'')]"
    by (simp add: eval_defs chars)
  have dd: "map PCD2_fmt (drop_duplicates Outcode ?ms) = [Str ''SW1A 2AA'', Str ''LS1 4AP'']"
    by (simp add: eval_defs chars)
  have mem: "last ?m2 \<in> set ?m2"
    by (simp add: eval_defs chars)
  have key: "Outcode_gp (fst (last ?m2)) = Str ''SW1A''"
    by (simp add: eval_defs chars)
  have "map_option PCD2_fmt (find (\<lambda>m. Outcode m = Str ''SW1A'') ?ms) = Some (Str ''SW1A 2AA'')"
    by (simp add: eval_defs chars)
  with outcode_first_occurrence [of ?ms "map gp_core_of gp_example"] mem key
  have "map_option PCD2_fmt (snd (last ?m2)) = Some (Str ''SW1A 2AA'')"
    by auto
  with tab dd mem show ?thesis by blast
qed

text \<open>
  Claim C2, as the code has it. In every row of the merged table the match by postcode
  is a row of the mapping with the postcode of the practice (none when the mapping has no
  such row), the match by outcode is the first row of the mapping with its outcode, and
  every resolved field is the stripped text of the value from the match by postcode when
  that value is a string that is not empty after stripping, otherwise the stripped text
  of the value from the match by outcode when that one is such a string, otherwise
  missing. A field that was not resolved is missing.
\<close>

theorem coalesce_priority:
  "\<forall>row \<in> set (run_merged picked has_outcode gp_raw mapping).
     (case pc_match row of
        None \<Rightarrow> PostCode (gp_cols row) \<notin> set (map PCD2_fmt (map (map_slim_of has_outcode) mapping))
      | Some m \<Rightarrow> m \<in> set (map (map_slim_of has_outcode) mapping)
                  \<and> PCD2_fmt m = PostCode (gp_cols row)) \<and>
     oc_match row =
       find (\<lambda>m. Outcode m = str_split_first (PostCode (gp_cols row)))
            (map (map_slim_of has_outcode) mapping) \<and>
     (\<forall>f. out_geo row f =
        (if picked f
         then trimmed_or (get_col (pc_match row) f) (trimmed_or (get_col (oc_match row) f) NaN)
         else NaN))"
proof
  fix row
  assume row: "row \<in> set (run_merged picked has_outcode gp_raw mapping)"
  have "out_geo row f =
        (if picked f
         then trimmed_or (get_col (pc_match row) f) (trimmed_or (get_col (oc_match row) f) NaN)
         else NaN)" for f
    unfolding run_merged_rows(4) [OF row] by (rule coalesce_eq)
  with run_merged_rows(2,3) [OF row]
  show "(case pc_match row of
        None \<Rightarrow> PostCode (gp_cols row) \<notin> set (map PCD2_fmt (map (map_slim_of has_outcode) mapping))
      | Some m \<Rightarrow> m \<in> set (map (map_slim_of has_outcode) mapping)
                  \<and> PCD2_fmt m = PostCode (gp_cols row)) \<and>
     oc_match row =
       find (\<lambda>m. Outcode m = str_split_first (PostCode (gp_cols row)))
            (map (map_slim_of has_outcode) mapping) \<and>
     (\<forall>f. out_geo row f =
        (if picked f
         then trimmed_or (get_col (pc_match row) f) (trimmed_or (get_col (oc_match row) f) NaN)
         else NaN))"
    by blast
qed

text \<open>
  The first practice of the example matches one row by postcode (region \<open>" London"\<close>)
  and another by outcode (region \<open>"Westminster"\<close>): its region is \<open>"London"\<close>.
\<close>

theorem coalesce_priority_witness:
  "hd (run_merged picked_example False gp_example mapping_example)
     \<in> set (run_merged picked_example False gp_example mapping_example) \<and>
   get_col (pc_match (hd (run_merged picked_example False gp_example mapping_example))) RegionName
     = Str '' London'' \<and>
   get_col (oc_match (hd (run_merged picked_example False gp_example mapping_example))) RegionName
     = Str ''Westminster'' \<and>
   out_geo (hd (run_merged picked_example False gp_example mapping_example)) RegionName
     = Str ''London''"
proof -
  have mem: "hd (run_merged picked_example False gp_example mapping_example)
     \<in> set (run_merged picked_example False gp_example mapping_example)"
    by (simp add: eval_defs chars)
  have vals: "get_col (pc_match (hd (run_merged picked_example False gp_example mapping_example))) RegionName
     = Str '' London''"
    "get_col (oc_match (hd (run_merged picked_example False gp_example mapping_example))) RegionName
     = Str ''Westminster''"
    by (simp_all add: eval_defs chars)
  have "strip '' London'' = ''London''"
    by (simp add: strip_def chars)
  with coalesce_priority [of picked_example False gp_example mapping_example] mem vals
  show ?thesis by auto
qed

text \<open>
  Claim C2 as it is stated says that the coalesced value equals the value of the match by
  postcode when that value is present. For the first practice of the example that value,
  \<open>" London"\<close>, is present, and the coalesced value is a different string: the
  stripped \<open>"London"\<close>.
\<close>

theorem coalesce_untrimmed_counterexample:
  "get_col (pc_match (hd (run_merged picked_example False gp_example mapping_example))) RegionName
     = Str '' London'' \<and>
   strip '' London'' = ''London'' \<and>
   out_geo (hd (run_merged picked_example False gp_example mapping_example)) RegionName
     = Str ''London'' \<and>
   out_geo (hd (run_merged picked_example False gp_example mapping_example)) RegionName
     \<noteq> get_col (pc_match (hd (run_merged picked_example False gp_example mapping_example))) RegionName"
  by (simp add: eval_defs chars)

text \<open>
  Claim C10. \<open>first_nonnull\<close> returns the stripped text of the first argument that is a
  string with a non-empty strip, and the missing marker when there is none; an argument
  that is not a string is passed over. Its result is the missing marker or a non-empty
  string that neither begins nor ends with whitespace, and so is every geography field of
  every row that \<open>run\<close> writes.
\<close>

theorem coalesced_fields_trimmed:
  "first_nonnull vals =
     (case find (\<lambda>v. case v of Val (Str s) \<Rightarrow> strip s \<noteq> [] | _ \<Rightarrow> False) vals of
        Some (Val (Str s)) \<Rightarrow> Str (strip s)
      | _ \<Rightarrow> NaN) \<and>
   (first_nonnull vals = NaN \<or>
    (\<exists>t. first_nonnull vals = Str t \<and> t \<noteq> [] \<and> \<not> is_space (hd t) \<and> \<not> is_space (last t))) \<and>
   (\<forall>row \<in> set (run_output picked has_outcode gp_raw mapping). \<forall>f.
      out_geo row f = NaN \<or>
      (\<exists>t. out_geo row f = Str t \<and> t \<noteq> [] \<and> \<not> is_space (hd t) \<and> \<not> is_space (last t)))"
proof -
  have "out_geo row f = NaN \<or>
      (\<exists>t. out_geo row f = Str t \<and> t \<noteq> [] \<and> \<not> is_space (hd t) \<and> \<not> is_space (last t))"
    if "row \<in> set (run_output picked has_outcode gp_raw mapping)" for row f
  proof -
    from that set_run_output have "row \<in> set (run_merged picked has_outcode gp_raw mapping)"
      by blast
    from out_geo_run_merged [OF this] coalesce_trimmed [of picked "pc_match row" "oc_match row" f]
    show ?thesis by simp
  qed
  with first_nonnull_find [of vals] first_nonnull_trimmed [of vals] show ?thesis by blast
qed

theorem coalesced_fields_trimmed_witness:
  "first_nonnull [NonStr, Val NaN, Val (Str ''  ''), Val (Str '' E1 ''), Val (Str ''X'')] = Str ''E1'' \<and>
   hd (run_output picked_example False gp_example mapping_example)
     \<in> set (run_output picked_example False gp_example mapping_example) \<and>
   out_geo (hd (run_output picked_example False gp_example mapping_example)) RegionName = Str ''London'' \<and>
   out_geo (hd (run_output picked_example False gp_example mapping_example)) ICBID = NaN"
proof -
  have a: "first_nonnull [NonStr, Val NaN, Val (Str ''  ''), Val (Str '' E1 ''), Val (Str ''X'')] = Str ''E1''"
    using coalesced_fields_trimmed [of "[NonStr, Val NaN, Val (Str ''  ''), Val (Str '' E1 ''), Val (Str ''X'')]"]
    by (simp add: strip_def chars)
  have "hd (run_output picked_example False gp_example mapping_example)
     \<in> set (run_output picked_example False gp_example mapping_example)"
   "out_geo (hd (run_output picked_example False gp_example mapping_example)) RegionName = Str ''London''"
   "out_geo (hd (run_output picked_example False gp_example mapping_example)) ICBID = NaN"
    by (simp_all add: eval_defs chars)
  with a show ?thesis by blast
qed

section \<open>The header resolvers\<close>

lemma dict_of_snoc: "dict_of key (cols @ [c]) = (dict_of key cols)(key c \<mapsto> c)"
  by (simp add: dict_of_def)

lemma dict_of_last:
  "dict_of key cols k =
     (if filter (\<lambda>c. key c = k) cols = [] then None
      else Some (last (filter (\<lambda>c. key c = k) cols)))"
proof (induction cols rule: rev_induct)
  case Nil
  show ?case by (simp add: dict_of_def)
next
  case (snoc c cols)
  show ?case
    unfolding dict_of_snoc using snoc by simp
qed

lemma dict_of_dom: "dict_of key cols k \<noteq> None \<longleftrightarrow> k \<in> key ` set cols"
  unfolding dict_of_last by (auto simp: filter_empty_conv)

lemma lookup_first_find:
  "lookup_first key d cands =
     (case find (\<lambda>c. d (key c) \<noteq> None) cands of None \<Rightarrow> None | Some c \<Rightarrow> d (key c))"
  by (induction cands) (auto split: option.splits)

lemma find_exact_find: "find_exact cols cands = find (\<lambda>c. c \<in> set cols) cands"
  by (induction cands) auto

lemma resolve_by_key:
  "lookup_first key (dict_of key cols) cands =
     (case find (\<lambda>c. key c \<in> key ` set cols) cands of
        None \<Rightarrow> None
      | Some c \<Rightarrow> Some (last (filter (\<lambda>h. key h = key c) cols)))"
proof -
  have eq: "(\<lambda>c. dict_of key cols (key c) \<noteq> None) = (\<lambda>c. key c \<in> key ` set cols)"
    by (rule ext) (rule dict_of_dom)
  show ?thesis
  proof (cases "find (\<lambda>c. key c \<in> key ` set cols) cands")
    case None
    then show ?thesis unfolding lookup_first_find eq by simp
  next
    case (Some c)
    then have "key c \<in> key ` set cols" by (auto simp: find_Some_iff)
    then have "filter (\<lambda>h. key h = key c) cols \<noteq> []"
      by (auto simp: filter_empty_conv)
    then have "dict_of key cols (key c) = Some (last (filter (\<lambda>h. key h = key c) cols))"
      by (simp add: dict_of_last)
    with Some show ?thesis unfolding lookup_first_find eq by simp
  qed
qed

lemmas resolver_defs = find_column_def pick_col_def dict_of_def norm_key_def lower_strip_def strip_def

text \<open>
  Claim C4, as the code has it. \<open>find_column\<close> returns the first candidate that is
  itself a header; only when no candidate is a header it takes the first candidate, in
  order, whose lower-cased and stripped name is that of a header, and returns that header
  (the last one, when several headers have that name); when no candidate matches in
  either pass the field is unresolved. \<open>pick_col\<close> has no pass for exact matches: it
  takes the first candidate, in order, whose stripped and lower-cased name, with every
  run of whitespace made one space, is that of a header, and returns that header (the
  last one with that name); otherwise the field is unresolved.
\<close>

theorem header_resolution:
  "find_column cols cands =
     (case find (\<lambda>c. c \<in> set cols) cands of
        Some c \<Rightarrow> Some c
      | None \<Rightarrow>
          (case find (\<lambda>c. lower_strip c \<in> lower_strip ` set cols) cands of
             None \<Rightarrow> None
           | Some c \<Rightarrow> Some (last (filter (\<lambda>h. lower_strip h = lower_strip c) cols)))) \<and>
   pick_col cols cands =
     (case find (\<lambda>c. norm_key c \<in> norm_key ` set cols) cands of
        None \<Rightarrow> None
      | Some c \<Rightarrow> Some (last (filter (\<lambda>h. norm_key h = norm_key c) cols)))"
  by (simp add: find_column_def pick_col_def find_exact_find resolve_by_key split: option.splits)

text \<open>
  The example of the specification, a resolution by the second pass, an unresolved field,
  and the same for \<open>pick_col\<close>.
\<close>

theorem header_resolution_witness:
  "find_column [''LSOA code (2011)'', ''Health  Score ''] [''LSOA Code'', ''LSOA code (2011)'']
     = Some ''LSOA code (2011)'' \<and>
   find_column [''lsoa CODE '', ''Score''] [''LSOA code (2011)'', ''LSOA Code'']
     = Some ''lsoa CODE '' \<and>
   find_column [''Score''] [''LSOA code (2011)'', ''LSOA Code''] = None \<and>
   pick_col [''PCD2 '', ''Post   Code''] [''Postcode'', ''post code''] = Some ''Post   Code'' \<and>
   pick_col [''Score''] [''Postcode'', ''post code''] = None"
  using header_resolution [of "[''LSOA code (2011)'', ''Health  Score '']" "[''LSOA Code'', ''LSOA code (2011)'']"]
  by (simp add: resolver_defs chars)

text \<open>
  Claim C4 as it is stated says that \<open>pick_col\<close> too returns the first candidate that
  matches a header exactly. With the headers \<open>pcd2\<close> and \<open>Postcode\<close> the first
  candidate that is a header is \<open>Postcode\<close>, which \<open>find_column\<close> returns;
  \<open>pick_col\<close> returns \<open>pcd2\<close>, which matches the earlier candidate \<open>PCD2\<close> only
  without regard to case.
\<close>

theorem pick_col_exact_counterexample:
  "find_exact [''pcd2'', ''Postcode''] [''PCD2'', ''Postcode''] = Some ''Postcode'' \<and>
   find_column [''pcd2'', ''Postcode''] [''PCD2'', ''Postcode''] = Some ''Postcode'' \<and>
   pick_col [''pcd2'', ''Postcode''] [''PCD2'', ''Postcode''] = Some ''pcd2''"
  by (simp add: resolver_defs chars)

section \<open>Values that do not parse\<close>








lemma coerce_int_unparseable: "to_numeric P s = None \<Longrightarrow> coerce_int P (Str s) = Inr 0"
  by simp




section \<open>The aggregation by period and practice\<close>







section \<open>Exit codes\<close>












end
